theory Spec2Isabelle
  imports Main
begin

section \<open>Python values reaching the handlers\<close>

text \<open>
  The tool arguments arrive as a decoded JSON object (\<^verbatim>\<open>dict | None\<close>), so their
  values are untyped.  The JSON-shaped Python values are modelled by one datatype; a
  dictionary is an association list read with \<open>map_of\<close>.  Floating point numbers are not
  modelled.  Strings are \<open>char list\<close>; the level names and tool names in question are ASCII.
\<close>

datatype pyval =
    PNone
  | PBool bool
  | PInt int
  | PStr string
  | PList "pyval list"
  | PDict "(string \<times> pyval) list"

type_synonym pydict = "(string \<times> pyval) list"

text \<open>Python truthiness, as tested by \<^verbatim>\<open>not v\<close>.\<close>

fun truthy :: "pyval \<Rightarrow> bool" where
  "truthy PNone = False"
| "truthy (PBool b) = b"
| "truthy (PInt i) = (i \<noteq> 0)"
| "truthy (PStr s) = (s \<noteq> [])"
| "truthy (PList xs) = (xs \<noteq> [])"
| "truthy (PDict kvs) = (kvs \<noteq> [])"

text \<open>\<^verbatim>\<open>d.get(k)\<close>: the value stored under \<open>k\<close>, or \<^verbatim>\<open>None\<close> when the key is absent.\<close>

definition dict_get :: "pydict \<Rightarrow> string \<Rightarrow> pyval" where
  "dict_get d k = (case map_of d k of None \<Rightarrow> PNone | Some v \<Rightarrow> v)"

text \<open>\<^verbatim>\<open>str.upper()\<close> on ASCII text.\<close>

definition char_upper :: "char \<Rightarrow> char" where
  "char_upper c =
     (let n = of_char c :: nat in if 97 \<le> n \<and> n \<le> 122 then char_of (n - 32) else c)"

definition upper :: "string \<Rightarrow> string" where
  "upper s = map char_upper s"

section \<open>Exceptions, protocol types and the world\<close>

text \<open>
  An exception raised inside an external collaborator (the Linkup client, the protocol
  session) is opaque to the server: it is carried as an \<open>ext_error\<close> (class name and
  message).  \<open>ValueError\<close> is a Python \<^verbatim>\<open>ValueError\<close> raised by the server's own
  statements or by the standard library's \<^verbatim>\<open>logging\<close> module; \<open>Propagated\<close> is an
  exception that left a collaborator's call and was not caught.
\<close>

datatype ext_error = ExtError string string

datatype exn = ValueError string | Propagated ext_error

text \<open>
  The members of the handler's return type.  Only \<open>TextContent\<close> is ever built; its
  arguments are the fields \<^verbatim>\<open>type\<close> and \<^verbatim>\<open>text\<close>.
\<close>

datatype content =
    TextContent string string
  | ImageContent string string
  | EmbeddedResource string

text \<open>\<^verbatim>\<open>types.Tool(name, description, inputSchema)\<close>.\<close>

datatype Tool = Tool (tool_name: string) (tool_description: string) (tool_inputSchema: pyval)

datatype EmptyResult = EmptyResult

text \<open>
  The calls the handlers make to their collaborators, in the order they are made:
  \<^verbatim>\<open>LinkupClient()\<close>, \<^verbatim>\<open>client.search(query, depth, output_type)\<close> and
  \<^verbatim>\<open>session.send_log_message(level, data, logger)\<close>.
\<close>

datatype call =
    Call_LinkupClient
  | Call_search pyval pyval string
  | Call_send_log_message string string string

text \<open>
  The state a handler runs in: the threshold of the process-wide logger
  \<^verbatim>\<open>"mcp-search-linkup"\<close>, the state of everything outside the process (provider and
  session), and the trace of calls made to the outside so far.
\<close>

record 'e world =
  logger_level :: nat
  ext :: 'e
  calls :: "call list"

text \<open>
  The collaborators themselves are parameters: each operation takes the outside state and
  returns either the exception it raises (\<open>Inl\<close>) or its value (\<open>Inr\<close>), with the new
  outside state.  \<open>str\<close> is the provider response's \<^verbatim>\<open>__str__\<close>.
\<close>

record ('e, 'c, 'r) env =
  LinkupClient :: "'e \<Rightarrow> (ext_error + 'c) \<times> 'e"
  search :: "'c \<Rightarrow> pyval \<Rightarrow> pyval \<Rightarrow> string \<Rightarrow> 'e \<Rightarrow> (ext_error + 'r) \<times> 'e"
  str :: "'r \<Rightarrow> string"
  send_log_message :: "string \<Rightarrow> string \<Rightarrow> string \<Rightarrow> 'e \<Rightarrow> (ext_error + unit) \<times> 'e"

section \<open>The logger\<close>

text \<open>
  \<^verbatim>\<open>logging._nameToLevel\<close> of the standard library, and \<^verbatim>\<open>logging._checkLevel\<close> on a
  string argument: an unknown name raises \<^verbatim>\<open>ValueError("Unknown level: %r" % level)\<close>.
  \<^verbatim>\<open>Logger.setLevel(level)\<close> stores the checked level.
\<close>

definition nameToLevel :: "(string \<times> nat) list" where
  "nameToLevel =
     [(''CRITICAL'', 50), (''FATAL'', 50), (''ERROR'', 40), (''WARN'', 30),
      (''WARNING'', 30), (''INFO'', 20), (''DEBUG'', 10), (''NOTSET'', 0)]"

definition repr :: "string \<Rightarrow> string" where
  "repr s = [CHR 0x27] @ s @ [CHR 0x27]"

definition checkLevel :: "string \<Rightarrow> exn + nat" where
  "checkLevel level =
     (case map_of nameToLevel level of
        None \<Rightarrow> Inl (ValueError (''Unknown level: '' @ repr level))
      | Some rv \<Rightarrow> Inr rv)"

definition setLevel :: "string \<Rightarrow> 'e world \<Rightarrow> (exn + unit) \<times> 'e world" where
  "setLevel level w =
     (case checkLevel level of
        Inl e \<Rightarrow> (Inl e, w)
      | Inr rv \<Rightarrow> (Inr (), w\<lparr>logger_level := rv\<rparr>))"

text \<open>The module sets the logger to \<^verbatim>\<open>logging.INFO\<close> when it is loaded.\<close>

definition initial_world :: "'e \<Rightarrow> 'e world" where
  "initial_world e = \<lparr>logger_level = 20, ext = e, calls = []\<rparr>"

section \<open>The handlers\<close>

text \<open>
  Each handler is a function of the collaborators, its parameters and the world it starts
  in; it returns what the Python function returns or raises, and the world it leaves.  The
  statements are taken in the order of the source, and a raise ends the handler.
\<close>

definition set_logging_level ::
  "('e, 'c, 'r) env \<Rightarrow> string \<Rightarrow> 'e world \<Rightarrow> (exn + EmptyResult) \<times> 'e world" where
  "set_logging_level E level w =
     (case setLevel (upper level) w of
        (Inl e, w1) \<Rightarrow> (Inl e, w1)
      | (Inr _, w1) \<Rightarrow>
          (case send_log_message E ''info'' (''Log level set to '' @ level)
                  ''mcp-search-linkup'' (ext w1) of
             (Inl x, e2) \<Rightarrow>
               (Inl (Propagated x),
                w1\<lparr>ext := e2,
                   calls := calls w1 @
                     [Call_send_log_message ''info'' (''Log level set to '' @ level)
                        ''mcp-search-linkup'']\<rparr>)
           | (Inr _, e2) \<Rightarrow>
               (Inr EmptyResult,
                w1\<lparr>ext := e2,
                   calls := calls w1 @
                     [Call_send_log_message ''info'' (''Log level set to '' @ level)
                        ''mcp-search-linkup'']\<rparr>)))"

definition search_web_description :: string where
  "search_web_description =
     ''Search the web in real time using Linkup. Use this tool whenever the user needs trusted facts, news, or source-backed information. Returns comprehensive content from the most relevant sources.''"

definition query_description :: string where
  "query_description =
     ''Natural language search query. Full questions work best, e.g., 'How does the new EU AI Act affect startups?'' @ [CHR 0x27]"

definition depth_description :: string where
  "depth_description =
     ''The search depth to perform. Use 'standard' for '' @
     ''queries with likely direct answers. Use 'deep' for complex queries '' @
     ''requiring comprehensive analysis or multi-hop questions''"

definition search_web_schema :: pyval where
  "search_web_schema =
     PDict
      [(''type'', PStr ''object''),
       (''properties'',
        PDict
         [(''query'',
           PDict [(''type'', PStr ''string''), (''description'', PStr query_description)]),
          (''depth'',
           PDict
            [(''type'', PStr ''string''),
             (''description'', PStr depth_description),
             (''enum'', PList [PStr ''standard'', PStr ''deep''])])]),
       (''required'', PList [PStr ''query'', PStr ''depth''])]"

definition handle_list_tools :: "'e world \<Rightarrow> (exn + Tool list) \<times> 'e world" where
  "handle_list_tools w =
     (Inr [Tool ''search-web'' search_web_description search_web_schema], w)"

definition handle_call_tool ::
  "('e, 'c, 'r) env \<Rightarrow> string \<Rightarrow> pydict option \<Rightarrow> 'e world
     \<Rightarrow> (exn + content list) \<times> 'e world" where
  "handle_call_tool E name arguments w =
     (if name \<noteq> ''search-web'' then (Inl (ValueError (''Unknown tool: '' @ name)), w)
      else
        (case arguments of
           None \<Rightarrow> (Inl (ValueError ''Missing arguments''), w)
         | Some d \<Rightarrow>
             if d = [] then (Inl (ValueError ''Missing arguments''), w)
             else
               (let query = dict_get d ''query'' in
                if \<not> truthy query then (Inl (ValueError ''Missing query''), w)
                else
                  (let depth = dict_get d ''depth'' in
                   if \<not> truthy depth then (Inl (ValueError ''Missing depth''), w)
                   else
                     (case LinkupClient E (ext w) of
                        (Inl x, e1) \<Rightarrow>
                          (Inl (Propagated x),
                           w\<lparr>ext := e1, calls := calls w @ [Call_LinkupClient]\<rparr>)
                      | (Inr client, e1) \<Rightarrow>
                          (case search E client query depth ''searchResults'' e1 of
                             (Inl x, e2) \<Rightarrow>
                               (Inl (Propagated x),
                                w\<lparr>ext := e2,
                                   calls := calls w @
                                     [Call_LinkupClient,
                                      Call_search query depth ''searchResults'']\<rparr>)
                           | (Inr search_response, e2) \<Rightarrow>
                               (Inr [TextContent ''text'' (str E search_response)],
                                w\<lparr>ext := e2,
                                   calls := calls w @
                                     [Call_LinkupClient,
                                      Call_search query depth ''searchResults'']\<rparr>)))))))"

section \<open>A stub environment\<close>

text \<open>
  A test double for the collaborators: the outside state counts the searches made so far;
  constructing the client fails with \<open>ctor\<close> when that is given, a search answers
  \<open>resp\<close> of the count and the two parameters, and sending a log message fails with
  \<open>snd_err\<close> when that is given.
\<close>

definition stub_env ::
  "ext_error option \<Rightarrow> (nat \<Rightarrow> pyval \<Rightarrow> pyval \<Rightarrow> ext_error + string) \<Rightarrow> ext_error option
     \<Rightarrow> (nat, unit, string) env" where
  "stub_env ctor resp snd_err =
     \<lparr>LinkupClient = (\<lambda>e. (case ctor of Some x \<Rightarrow> Inl x | None \<Rightarrow> Inr (), e)),
      search = (\<lambda>client query depth output_type e. (resp e query depth, Suc e)),
      str = (\<lambda>r. r),
      send_log_message =
        (\<lambda>level data logger e. (case snd_err of Some x \<Rightarrow> Inl x | None \<Rightarrow> Inr (), e))\<rparr>"

text \<open>A provider that answers with the query it was given, when that is a string.\<close>

definition echo_env :: "(nat, unit, string) env" where
  "echo_env = stub_env None (\<lambda>e q d. Inr (case q of PStr s \<Rightarrow> s | _ \<Rightarrow> [])) None"

section \<open>Reading a schema\<close>

text \<open>
  The entry of a dictionary value under a key (\<^verbatim>\<open>None\<close> when there is none), and the keys
  of a dictionary value in their order; used to state what the tool's schema declares.
\<close>

fun get_item :: "pyval \<Rightarrow> string \<Rightarrow> pyval" where
  "get_item (PDict kvs) k = dict_get kvs k"
| "get_item _ k = PNone"

fun keys :: "pyval \<Rightarrow> string list" where
  "keys (PDict kvs) = map fst kvs"
| "keys _ = []"

section \<open>The tool catalogue\<close>

text \<open>
  C3: in every world \<open>handle_list_tools\<close> returns the same single descriptor, named
  \<^verbatim>\<open>search-web\<close>, and leaves the world as it was.  Its schema is an object whose
  properties are exactly \<^verbatim>\<open>query\<close>, a string without enumeration, and \<^verbatim>\<open>depth\<close>, a string
  with the enumeration \<^verbatim>\<open>["standard", "deep"]\<close>; both are required.
\<close>

theorem handle_list_tools_static:
  "\<exists>t. handle_list_tools w = (Inr [t], w) \<and>
       fst (handle_list_tools w') = Inr [t] \<and>
       tool_name t = ''search-web'' \<and>
       get_item (tool_inputSchema t) ''type'' = PStr ''object'' \<and>
       keys (get_item (tool_inputSchema t) ''properties'') = [''query'', ''depth''] \<and>
       get_item (get_item (get_item (tool_inputSchema t) ''properties'') ''query'') ''type'' =
         PStr ''string'' \<and>
       get_item (get_item (get_item (tool_inputSchema t) ''properties'') ''query'') ''enum'' =
         PNone \<and>
       get_item (get_item (get_item (tool_inputSchema t) ''properties'') ''depth'') ''type'' =
         PStr ''string'' \<and>
       get_item (get_item (get_item (tool_inputSchema t) ''properties'') ''depth'') ''enum'' =
         PList [PStr ''standard'', PStr ''deep''] \<and>
       get_item (tool_inputSchema t) ''required'' = PList [PStr ''query'', PStr ''depth'']"
  by (simp add: handle_list_tools_def search_web_schema_def dict_get_def)

section \<open>Validation in \<open>handle_call_tool\<close>\<close>

lemma handle_call_tool_unknown:
  "name \<noteq> ''search-web'' \<Longrightarrow>
     handle_call_tool E name arguments w = (Inl (ValueError (''Unknown tool: '' @ name)), w)"
  by (simp add: handle_call_tool_def)

lemma handle_call_tool_no_arguments:
  "arguments = None \<or> arguments = Some [] \<Longrightarrow>
     handle_call_tool E ''search-web'' arguments w = (Inl (ValueError ''Missing arguments''), w)"
  by (auto simp add: handle_call_tool_def)

lemma handle_call_tool_no_query:
  "d \<noteq> [] \<Longrightarrow> \<not> truthy (dict_get d ''query'') \<Longrightarrow>
     handle_call_tool E ''search-web'' (Some d) w = (Inl (ValueError ''Missing query''), w)"
  by (simp add: handle_call_tool_def)

lemma handle_call_tool_no_depth:
  "truthy (dict_get d ''query'') \<Longrightarrow> \<not> truthy (dict_get d ''depth'') \<Longrightarrow>
     handle_call_tool E ''search-web'' (Some d) w = (Inl (ValueError ''Missing depth''), w)"
  by (auto simp add: handle_call_tool_def dict_get_def)

lemma truthy_get_nonempty: "truthy (dict_get d k) \<Longrightarrow> d \<noteq> []"
  by (auto simp: dict_get_def)

lemma handle_call_tool_valid:
  "truthy (dict_get d ''query'') \<Longrightarrow> truthy (dict_get d ''depth'') \<Longrightarrow>
     handle_call_tool E ''search-web'' (Some d) w =
       (case LinkupClient E (ext w) of
          (Inl x, e1) \<Rightarrow>
            (Inl (Propagated x), w\<lparr>ext := e1, calls := calls w @ [Call_LinkupClient]\<rparr>)
        | (Inr client, e1) \<Rightarrow>
            (case search E client (dict_get d ''query'') (dict_get d ''depth'')
                    ''searchResults'' e1 of
               (Inl x, e2) \<Rightarrow>
                 (Inl (Propagated x),
                  w\<lparr>ext := e2,
                     calls := calls w @
                       [Call_LinkupClient,
                        Call_search (dict_get d ''query'') (dict_get d ''depth'')
                          ''searchResults'']\<rparr>)
             | (Inr search_response, e2) \<Rightarrow>
                 (Inr [TextContent ''text'' (str E search_response)],
                  w\<lparr>ext := e2,
                     calls := calls w @
                       [Call_LinkupClient,
                        Call_search (dict_get d ''query'') (dict_get d ''depth'')
                          ''searchResults'']\<rparr>)))"
  by (frule truthy_get_nonempty) (simp add: handle_call_tool_def Let_def)

text \<open>
  C2: the checks of \<open>handle_call_tool\<close> come in a fixed order and fail differently: a name
  other than \<^verbatim>\<open>search-web\<close> is refused with a message carrying that name, whatever the
  arguments; then absent or empty arguments; then an absent or falsy \<^verbatim>\<open>query\<close>, whatever
  \<^verbatim>\<open>depth\<close> is; then an absent or falsy \<^verbatim>\<open>depth\<close>.  The four exceptions are pairwise
  different and the world is left as it was.
\<close>

theorem handle_call_tool_validation_order:
  "(name \<noteq> ''search-web'' \<longrightarrow>
      handle_call_tool E name arguments w =
        (Inl (ValueError (''Unknown tool: '' @ name)), w)) \<and>
   (arguments = None \<or> arguments = Some [] \<longrightarrow>
      handle_call_tool E ''search-web'' arguments w =
        (Inl (ValueError ''Missing arguments''), w)) \<and>
   (d \<noteq> [] \<and> \<not> truthy (dict_get d ''query'') \<longrightarrow>
      handle_call_tool E ''search-web'' (Some d) w =
        (Inl (ValueError ''Missing query''), w)) \<and>
   (d \<noteq> [] \<and> truthy (dict_get d ''query'') \<and> \<not> truthy (dict_get d ''depth'') \<longrightarrow>
      handle_call_tool E ''search-web'' (Some d) w =
        (Inl (ValueError ''Missing depth''), w)) \<and>
   distinct [ValueError (''Unknown tool: '' @ name), ValueError ''Missing arguments'',
             ValueError ''Missing query'', ValueError ''Missing depth'']"
proof (intro conjI impI)
  assume "name \<noteq> ''search-web''"
  then show "handle_call_tool E name arguments w =
      (Inl (ValueError (''Unknown tool: '' @ name)), w)"
    by (rule handle_call_tool_unknown)
next
  assume "arguments = None \<or> arguments = Some []"
  then show "handle_call_tool E ''search-web'' arguments w =
      (Inl (ValueError ''Missing arguments''), w)"
    by (rule handle_call_tool_no_arguments)
next
  assume "d \<noteq> [] \<and> \<not> truthy (dict_get d ''query'')"
  then show "handle_call_tool E ''search-web'' (Some d) w =
      (Inl (ValueError ''Missing query''), w)"
    by (simp add: handle_call_tool_no_query)
next
  assume "d \<noteq> [] \<and> truthy (dict_get d ''query'') \<and> \<not> truthy (dict_get d ''depth'')"
  then show "handle_call_tool E ''search-web'' (Some d) w =
      (Inl (ValueError ''Missing depth''), w)"
    by (simp add: handle_call_tool_no_depth)
next
  show "distinct [ValueError (''Unknown tool: '' @ name), ValueError ''Missing arguments'',
             ValueError ''Missing query'', ValueError ''Missing depth'']"
    by simp
qed

theorem handle_call_tool_validation_order_witness:
  "handle_call_tool (stub_env None (\<lambda>e q d. Inr ''R'') None) ''unknown-tool''
      (Some [(''query'', PStr ''q''), (''depth'', PStr ''standard'')]) (initial_world 0) =
     (Inl (ValueError ''Unknown tool: unknown-tool''), initial_world 0) \<and>
   handle_call_tool (stub_env None (\<lambda>e q d. Inr ''R'') None) ''search-web'' None
      (initial_world 0) =
     (Inl (ValueError ''Missing arguments''), initial_world 0) \<and>
   handle_call_tool (stub_env None (\<lambda>e q d. Inr ''R'') None) ''search-web''
      (Some [(''depth'', PStr ''standard'')]) (initial_world 0) =
     (Inl (ValueError ''Missing query''), initial_world 0) \<and>
   handle_call_tool (stub_env None (\<lambda>e q d. Inr ''R'') None) ''search-web''
      (Some [(''query'', PStr ''q'')]) (initial_world 0) =
     (Inl (ValueError ''Missing depth''), initial_world 0)"
  using
    handle_call_tool_validation_order
      [of "''unknown-tool''" "stub_env None (\<lambda>e q d. Inr ''R'') None"
          "Some [(''query'', PStr ''q''), (''depth'', PStr ''standard'')]" "initial_world 0"
          "[(''depth'', PStr ''standard'')]"]
    handle_call_tool_validation_order
      [of "''search-web''" "stub_env None (\<lambda>e q d. Inr ''R'') None"
          "None" "initial_world 0"
          "[(''query'', PStr ''q'')]"]
  by (simp add: dict_get_def)

text \<open>
  C4: when a call fails validation (wrong name, absent or empty arguments, absent or falsy
  \<^verbatim>\<open>query\<close> or \<^verbatim>\<open>depth\<close>) a \<open>ValueError\<close> is raised and the world is exactly what it was:
  no call to the provider was made, the outside state and the logger are untouched.
\<close>

theorem validation_failure_no_effect:
  assumes "name \<noteq> ''search-web'' \<or>
           (case arguments of
              None \<Rightarrow> True
            | Some d \<Rightarrow>
                d = [] \<or> \<not> truthy (dict_get d ''query'') \<or> \<not> truthy (dict_get d ''depth''))"
  shows "snd (handle_call_tool E name arguments w) = w \<and>
         (\<exists>m. fst (handle_call_tool E name arguments w) = Inl (ValueError m))"
proof (cases "name = ''search-web''")
  case False
  then show ?thesis by (simp add: handle_call_tool_unknown)
next
  case sw: True
  show ?thesis
  proof (cases arguments)
    case None
    with sw show ?thesis by (simp add: handle_call_tool_no_arguments)
  next
    case (Some d)
    with sw assms
    have bad: "d = [] \<or> \<not> truthy (dict_get d ''query'') \<or> \<not> truthy (dict_get d ''depth'')"
      by simp
    show ?thesis
    proof (cases "d = []")
      case True
      with sw Some show ?thesis by (simp add: handle_call_tool_no_arguments)
    next
      case ne: False
      show ?thesis
      proof (cases "truthy (dict_get d ''query'')")
        case False
        with sw Some ne show ?thesis by (simp add: handle_call_tool_no_query)
      next
        case True
        with bad ne have "\<not> truthy (dict_get d ''depth'')" by simp
        with sw Some True show ?thesis by (simp add: handle_call_tool_no_depth)
      qed
    qed
  qed
qed

theorem validation_failure_no_effect_witness:
  "snd (handle_call_tool (stub_env None (\<lambda>e q d. Inr ''R'') None) ''search-web''
          (Some [(''query'', PStr ''q''), (''depth'', PStr [])]) (initial_world 0)) =
     initial_world 0 \<and>
   (\<exists>m. fst (handle_call_tool (stub_env None (\<lambda>e q d. Inr ''R'') None) ''search-web''
          (Some [(''query'', PStr ''q''), (''depth'', PStr [])]) (initial_world 0)) =
        Inl (ValueError m))"
  using validation_failure_no_effect
    [of "''search-web''" "Some [(''query'', PStr ''q''), (''depth'', PStr [])]"
        "stub_env None (\<lambda>e q d. Inr ''R'') None" "initial_world 0"]
  by (simp add: dict_get_def)

section \<open>Forwarding to the provider\<close>

lemma handle_call_tool_valid_not_ValueError:
  assumes "truthy (dict_get d ''query'')" and "truthy (dict_get d ''depth'')"
  shows "fst (handle_call_tool E ''search-web'' (Some d) w) \<noteq> Inl (ValueError m)"
  using assms
  by (simp add: handle_call_tool_valid split: prod.split sum.split)

text \<open>
  C1: a call of \<^verbatim>\<open>search-web\<close> whose arguments hold a truthy \<^verbatim>\<open>query\<close> and a truthy
  \<^verbatim>\<open>depth\<close>, with a client that is constructed and a provider that answers \<open>R\<close>, makes
  exactly one search call, with that query, that depth and the output type
  \<^verbatim>\<open>searchResults\<close>, and returns the one-element list holding the text content whose text
  is \<open>str R\<close>, unchanged.
\<close>

theorem search_web_pass_through:
  assumes "truthy (dict_get d ''query'')" and "truthy (dict_get d ''depth'')"
    and "LinkupClient E (ext w) = (Inr client, e1)"
    and "search E client (dict_get d ''query'') (dict_get d ''depth'') ''searchResults'' e1 =
           (Inr R, e2)"
  shows "handle_call_tool E ''search-web'' (Some d) w =
           (Inr [TextContent ''text'' (str E R)],
            w\<lparr>ext := e2,
               calls := calls w @
                 [Call_LinkupClient,
                  Call_search (dict_get d ''query'') (dict_get d ''depth'') ''searchResults'']\<rparr>)"
  using assms by (simp add: handle_call_tool_valid)

theorem search_web_pass_through_witness:
  "handle_call_tool (stub_env None (\<lambda>e q d. Inr ''R'') None) ''search-web''
      (Some [(''query'', PStr ''q''), (''depth'', PStr ''standard'')]) (initial_world 0) =
     (Inr [TextContent ''text'' ''R''],
      \<lparr>logger_level = 20, ext = 1,
       calls = [Call_LinkupClient, Call_search (PStr ''q'') (PStr ''standard'') ''searchResults'']\<rparr>)"
  using search_web_pass_through
    [of "[(''query'', PStr ''q''), (''depth'', PStr ''standard'')]"
        "stub_env None (\<lambda>e q d. Inr ''R'') None" "initial_world 0" "()" 0 "''R''" 1]
  by (simp add: dict_get_def stub_env_def initial_world_def)

text \<open>
  C5: any non-empty string is accepted as \<^verbatim>\<open>depth\<close>, whether or not it is one of the
  advertised \<^verbatim>\<open>standard\<close> and \<^verbatim>\<open>deep\<close>: the call is not refused by validation, and once
  the client is constructed the handler's result and the outside state it leaves are those
  of the provider's search applied to the query, that very string and
  \<^verbatim>\<open>searchResults\<close>.
\<close>

theorem depth_enum_not_enforced:
  assumes "truthy (dict_get d ''query'')" and "dict_get d ''depth'' = PStr s" and "s \<noteq> []"
  shows "(\<forall>m. fst (handle_call_tool E ''search-web'' (Some d) w) \<noteq> Inl (ValueError m)) \<and>
         (\<forall>client e1. LinkupClient E (ext w) = (Inr client, e1) \<longrightarrow>
            handle_call_tool E ''search-web'' (Some d) w =
              (case search E client (dict_get d ''query'') (PStr s) ''searchResults'' e1 of
                 (Inl x, e2) \<Rightarrow>
                   (Inl (Propagated x),
                    w\<lparr>ext := e2,
                       calls := calls w @
                         [Call_LinkupClient,
                          Call_search (dict_get d ''query'') (PStr s) ''searchResults'']\<rparr>)
               | (Inr R, e2) \<Rightarrow>
                   (Inr [TextContent ''text'' (str E R)],
                    w\<lparr>ext := e2,
                       calls := calls w @
                         [Call_LinkupClient,
                          Call_search (dict_get d ''query'') (PStr s) ''searchResults'']\<rparr>)))"
proof -
  from assms have dp: "truthy (dict_get d ''depth'')" by simp
  have "\<forall>m. fst (handle_call_tool E ''search-web'' (Some d) w) \<noteq> Inl (ValueError m)"
    using handle_call_tool_valid_not_ValueError [OF assms(1) dp] by blast
  moreover
  have "\<forall>client e1. LinkupClient E (ext w) = (Inr client, e1) \<longrightarrow>
            handle_call_tool E ''search-web'' (Some d) w =
              (case search E client (dict_get d ''query'') (PStr s) ''searchResults'' e1 of
                 (Inl x, e2) \<Rightarrow>
                   (Inl (Propagated x),
                    w\<lparr>ext := e2,
                       calls := calls w @
                         [Call_LinkupClient,
                          Call_search (dict_get d ''query'') (PStr s) ''searchResults'']\<rparr>)
               | (Inr R, e2) \<Rightarrow>
                   (Inr [TextContent ''text'' (str E R)],
                    w\<lparr>ext := e2,
                       calls := calls w @
                         [Call_LinkupClient,
                          Call_search (dict_get d ''query'') (PStr s) ''searchResults'']\<rparr>))"
    unfolding handle_call_tool_valid [OF assms(1) dp] assms(2) by simp
  ultimately show ?thesis by blast
qed

theorem depth_enum_not_enforced_witness:
  "(\<forall>m. fst (handle_call_tool
                 (stub_env None (\<lambda>e q d. Inr (case d of PStr s \<Rightarrow> s | _ \<Rightarrow> [])) None)
                 ''search-web''
                 (Some [(''query'', PStr ''q''), (''depth'', PStr ''exhaustive'')])
                 (initial_world 0)) \<noteq> Inl (ValueError m)) \<and>
   handle_call_tool
      (stub_env None (\<lambda>e q d. Inr (case d of PStr s \<Rightarrow> s | _ \<Rightarrow> [])) None)
      ''search-web'' (Some [(''query'', PStr ''q''), (''depth'', PStr ''exhaustive'')])
      (initial_world 0) =
     (Inr [TextContent ''text'' ''exhaustive''],
      \<lparr>logger_level = 20, ext = 1,
       calls = [Call_LinkupClient,
                Call_search (PStr ''q'') (PStr ''exhaustive'') ''searchResults'']\<rparr>)"
  using depth_enum_not_enforced
    [of "[(''query'', PStr ''q''), (''depth'', PStr ''exhaustive'')]" "''exhaustive''"
        "stub_env None (\<lambda>e q d. Inr (case d of PStr s \<Rightarrow> s | _ \<Rightarrow> [])) None"
        "initial_world 0"]
  by (simp add: dict_get_def stub_env_def initial_world_def)

text \<open>
  C6: an exception raised while the client is constructed, or by the search, leaves
  \<open>handle_call_tool\<close> as the same exception; the search has then been called at most once
  (no retry).  Nothing of the failure is kept: the same call made again goes to the provider
  again and returns what the provider answers then.
\<close>

theorem provider_failure_propagates:
  assumes "truthy (dict_get d ''query'')" and "truthy (dict_get d ''depth'')"
  shows
    "(LinkupClient E (ext w) = (Inl x, e1) \<longrightarrow>
        handle_call_tool E ''search-web'' (Some d) w =
          (Inl (Propagated x), w\<lparr>ext := e1, calls := calls w @ [Call_LinkupClient]\<rparr>)) \<and>
     (LinkupClient E (ext w) = (Inr client, e1) \<and>
      search E client (dict_get d ''query'') (dict_get d ''depth'') ''searchResults'' e1 =
        (Inl x, e2) \<longrightarrow>
        handle_call_tool E ''search-web'' (Some d) w =
          (Inl (Propagated x),
           w\<lparr>ext := e2,
              calls := calls w @
                [Call_LinkupClient,
                 Call_search (dict_get d ''query'') (dict_get d ''depth'') ''searchResults'']\<rparr>)) \<and>
     (LinkupClient E (ext w) = (Inr client, e1) \<and>
      search E client (dict_get d ''query'') (dict_get d ''depth'') ''searchResults'' e1 =
        (Inl x, e2) \<and>
      LinkupClient E e2 = (Inr client', e3) \<and>
      search E client' (dict_get d ''query'') (dict_get d ''depth'') ''searchResults'' e3 =
        (Inr R, e4) \<longrightarrow>
        handle_call_tool E ''search-web'' (Some d)
            (snd (handle_call_tool E ''search-web'' (Some d) w)) =
          (Inr [TextContent ''text'' (str E R)],
           w\<lparr>ext := e4,
              calls := calls w @
                [Call_LinkupClient,
                 Call_search (dict_get d ''query'') (dict_get d ''depth'') ''searchResults'',
                 Call_LinkupClient,
                 Call_search (dict_get d ''query'') (dict_get d ''depth'') ''searchResults'']\<rparr>))"
  by (simp add: handle_call_tool_valid [OF assms])

theorem provider_failure_propagates_witness:
  "handle_call_tool
      (stub_env (Some (ExtError ''ValueError'' ''no API key'')) (\<lambda>e q d. Inr ''R'') None)
      ''search-web'' (Some [(''query'', PStr ''q''), (''depth'', PStr ''deep'')])
      (initial_world 0) =
     (Inl (Propagated (ExtError ''ValueError'' ''no API key'')),
      \<lparr>logger_level = 20, ext = 0, calls = [Call_LinkupClient]\<rparr>) \<and>
   handle_call_tool
      (stub_env None
         (\<lambda>e q d. if e = 0 then Inl (ExtError ''TimeoutError'' ''timed out'') else Inr ''R'')
         None)
      ''search-web'' (Some [(''query'', PStr ''q''), (''depth'', PStr ''deep'')])
      (initial_world 0) =
     (Inl (Propagated (ExtError ''TimeoutError'' ''timed out'')),
      \<lparr>logger_level = 20, ext = 1,
       calls = [Call_LinkupClient, Call_search (PStr ''q'') (PStr ''deep'') ''searchResults'']\<rparr>) \<and>
   handle_call_tool
      (stub_env None
         (\<lambda>e q d. if e = 0 then Inl (ExtError ''TimeoutError'' ''timed out'') else Inr ''R'')
         None)
      ''search-web'' (Some [(''query'', PStr ''q''), (''depth'', PStr ''deep'')])
      (snd (handle_call_tool
         (stub_env None
            (\<lambda>e q d. if e = 0 then Inl (ExtError ''TimeoutError'' ''timed out'') else Inr ''R'')
            None)
         ''search-web'' (Some [(''query'', PStr ''q''), (''depth'', PStr ''deep'')])
         (initial_world 0))) =
     (Inr [TextContent ''text'' ''R''],
      \<lparr>logger_level = 20, ext = 2,
       calls = [Call_LinkupClient, Call_search (PStr ''q'') (PStr ''deep'') ''searchResults'',
                Call_LinkupClient, Call_search (PStr ''q'') (PStr ''deep'') ''searchResults'']\<rparr>)"
  using
    provider_failure_propagates
      [of "[(''query'', PStr ''q''), (''depth'', PStr ''deep'')]"
          "stub_env (Some (ExtError ''ValueError'' ''no API key'')) (\<lambda>e q d. Inr ''R'') None"
          "initial_world 0" "ExtError ''ValueError'' ''no API key''" 0]
    provider_failure_propagates
      [of "[(''query'', PStr ''q''), (''depth'', PStr ''deep'')]"
          "stub_env None
             (\<lambda>e q d. if e = 0 then Inl (ExtError ''TimeoutError'' ''timed out'') else Inr ''R'')
             None"
          "initial_world 0" "ExtError ''TimeoutError'' ''timed out''" 0 "()" 1 "()" 1 "''R''" 2]
  by (auto simp add: dict_get_def stub_env_def initial_world_def)

section \<open>Independence of tool calls\<close>

lemma handle_call_tool_result_cases:
  "fst (handle_call_tool E name arguments w) =
     (if name \<noteq> ''search-web'' then Inl (ValueError (''Unknown tool: '' @ name))
      else
        (case arguments of
           None \<Rightarrow> Inl (ValueError ''Missing arguments'')
         | Some d \<Rightarrow>
             if d = [] then Inl (ValueError ''Missing arguments'')
             else if \<not> truthy (dict_get d ''query'') then Inl (ValueError ''Missing query'')
             else if \<not> truthy (dict_get d ''depth'') then Inl (ValueError ''Missing depth'')
             else
               (case fst (LinkupClient E (ext w)) of
                  Inl x \<Rightarrow> Inl (Propagated x)
                | Inr client \<Rightarrow>
                    (case fst (search E client (dict_get d ''query'') (dict_get d ''depth'')
                                 ''searchResults'' (snd (LinkupClient E (ext w)))) of
                       Inl x \<Rightarrow> Inl (Propagated x)
                     | Inr R \<Rightarrow> Inr [TextContent ''text'' (str E R)]))))"
  by (simp add: handle_call_tool_def Let_def split: option.split prod.split sum.split)

text \<open>
  C8: the handler keeps no state of its own between calls.  Of two calls made one after the
  other, each returns the text of the response the provider gave to that very call.  The
  result of a call is the same in any two worlds, and with any two providers, in which the
  client construction and the search for this call's query and depth have the same
  outcome; the logger's threshold is never touched.  The handler body has no suspension point,
  so two sessions' calls run one after the other.
\<close>

theorem tool_calls_do_not_interfere:
  "(truthy (dict_get dA ''query'') \<and> truthy (dict_get dA ''depth'') \<and>
    truthy (dict_get dB ''query'') \<and> truthy (dict_get dB ''depth'') \<and>
    LinkupClient E (ext w) = (Inr cA, e1) \<and>
    search E cA (dict_get dA ''query'') (dict_get dA ''depth'') ''searchResults'' e1 =
      (Inr RA, e2) \<and>
    LinkupClient E e2 = (Inr cB, e3) \<and>
    search E cB (dict_get dB ''query'') (dict_get dB ''depth'') ''searchResults'' e3 =
      (Inr RB, e4) \<longrightarrow>
      fst (handle_call_tool E ''search-web'' (Some dA) w) =
        Inr [TextContent ''text'' (str E RA)] \<and>
      fst (handle_call_tool E ''search-web'' (Some dB)
             (snd (handle_call_tool E ''search-web'' (Some dA) w))) =
        Inr [TextContent ''text'' (str E RB)]) \<and>
   (fst (LinkupClient E (ext w)) = fst (LinkupClient E' (ext w')) \<and>
    (\<forall>c. map_sum id (str E)
           (fst (search E c (dict_get d ''query'') (dict_get d ''depth'') ''searchResults''
                   (snd (LinkupClient E (ext w))))) =
         map_sum id (str E')
           (fst (search E' c (dict_get d ''query'') (dict_get d ''depth'') ''searchResults''
                   (snd (LinkupClient E' (ext w')))))) \<longrightarrow>
      fst (handle_call_tool E name (Some d) w) = fst (handle_call_tool E' name (Some d) w')) \<and>
   fst (handle_call_tool E name None w) = fst (handle_call_tool E' name None w') \<and>
   logger_level (snd (handle_call_tool E name arguments w)) = logger_level w"
proof (intro conjI impI)
  assume h: "truthy (dict_get dA ''query'') \<and> truthy (dict_get dA ''depth'') \<and>
    truthy (dict_get dB ''query'') \<and> truthy (dict_get dB ''depth'') \<and>
    LinkupClient E (ext w) = (Inr cA, e1) \<and>
    search E cA (dict_get dA ''query'') (dict_get dA ''depth'') ''searchResults'' e1 =
      (Inr RA, e2) \<and>
    LinkupClient E e2 = (Inr cB, e3) \<and>
    search E cB (dict_get dB ''query'') (dict_get dB ''depth'') ''searchResults'' e3 =
      (Inr RB, e4)"
  then have A: "handle_call_tool E ''search-web'' (Some dA) w =
      (Inr [TextContent ''text'' (str E RA)],
       w\<lparr>ext := e2,
          calls := calls w @
            [Call_LinkupClient,
             Call_search (dict_get dA ''query'') (dict_get dA ''depth'') ''searchResults'']\<rparr>)"
    by (simp add: handle_call_tool_valid)
  then show "fst (handle_call_tool E ''search-web'' (Some dA) w) =
      Inr [TextContent ''text'' (str E RA)]"
    by simp
  from h show "fst (handle_call_tool E ''search-web'' (Some dB)
             (snd (handle_call_tool E ''search-web'' (Some dA) w))) =
        Inr [TextContent ''text'' (str E RB)]"
    by (simp add: A handle_call_tool_valid)
next
  assume h: "fst (LinkupClient E (ext w)) = fst (LinkupClient E' (ext w')) \<and>
    (\<forall>c. map_sum id (str E)
           (fst (search E c (dict_get d ''query'') (dict_get d ''depth'') ''searchResults''
                   (snd (LinkupClient E (ext w))))) =
         map_sum id (str E')
           (fst (search E' c (dict_get d ''query'') (dict_get d ''depth'') ''searchResults''
                   (snd (LinkupClient E' (ext w'))))))"
  show "fst (handle_call_tool E name (Some d) w) = fst (handle_call_tool E' name (Some d) w')"
  proof (cases "fst (LinkupClient E' (ext w'))")
    case (Inl x)
    with h show ?thesis by (simp add: handle_call_tool_result_cases)
  next
    case (Inr c)
    from h have "map_sum id (str E)
           (fst (search E c (dict_get d ''query'') (dict_get d ''depth'') ''searchResults''
                   (snd (LinkupClient E (ext w))))) =
         map_sum id (str E')
           (fst (search E' c (dict_get d ''query'') (dict_get d ''depth'') ''searchResults''
                   (snd (LinkupClient E' (ext w')))))"
      by blast
    moreover from h Inr have "fst (LinkupClient E (ext w)) = Inr c" by simp
    ultimately show ?thesis
      using Inr
      by (cases "fst (search E c (dict_get d ''query'') (dict_get d ''depth'') ''searchResults''
                   (snd (LinkupClient E (ext w))))";
          cases "fst (search E' c (dict_get d ''query'') (dict_get d ''depth'') ''searchResults''
                   (snd (LinkupClient E' (ext w'))))")
        (simp_all add: handle_call_tool_result_cases)
  qed
next
  show "fst (handle_call_tool E name None w) = fst (handle_call_tool E' name None w')"
    by (simp add: handle_call_tool_result_cases)
next
  show "logger_level (snd (handle_call_tool E name arguments w)) = logger_level w"
    by (simp add: handle_call_tool_def Let_def split: option.split prod.split sum.split)
qed

theorem tool_calls_do_not_interfere_witness:
  "fst (handle_call_tool echo_env ''search-web''
          (Some [(''query'', PStr ''alpha''), (''depth'', PStr ''standard'')])
          (initial_world 0)) =
     Inr [TextContent ''text'' ''alpha''] \<and>
   fst (handle_call_tool echo_env ''search-web''
          (Some [(''query'', PStr ''beta''), (''depth'', PStr ''deep'')])
          (snd (handle_call_tool echo_env ''search-web''
                  (Some [(''query'', PStr ''alpha''), (''depth'', PStr ''standard'')])
                  (initial_world 0)))) =
     Inr [TextContent ''text'' ''beta''] \<and>
   fst (handle_call_tool echo_env ''search-web''
          (Some [(''query'', PStr ''alpha''), (''depth'', PStr ''standard'')])
          (initial_world 0)) =
     fst (handle_call_tool echo_env ''search-web''
          (Some [(''query'', PStr ''alpha''), (''depth'', PStr ''standard'')])
          \<lparr>logger_level = 40, ext = 7, calls = [Call_LinkupClient]\<rparr>)"
  using tool_calls_do_not_interfere
    [of "[(''query'', PStr ''alpha''), (''depth'', PStr ''standard'')]"
        "[(''query'', PStr ''beta''), (''depth'', PStr ''deep'')]"
        echo_env "initial_world 0" "()" 0 "''alpha''" 1 "()" 1 "''beta''" 2
        echo_env "\<lparr>logger_level = 40, ext = 7, calls = [Call_LinkupClient]\<rparr>"
        "[(''query'', PStr ''alpha''), (''depth'', PStr ''standard'')]" "''search-web''" None]
  by (auto simp add: dict_get_def echo_env_def stub_env_def initial_world_def)

text \<open>
  C9: \<open>handle_call_tool\<close> raises a \<open>ValueError\<close> exactly when the name is not
  \<^verbatim>\<open>search-web\<close>, or the arguments are absent or empty, or \<^verbatim>\<open>query\<close> or \<^verbatim>\<open>depth\<close> is
  absent or falsy.  Only truthiness is tested: for any truthy values, strings or not, once the
  client is constructed the handler's result and the outside state it leaves are those of
  the provider's search applied to these very values.
\<close>

theorem validation_is_truthiness:
  "((\<exists>m. fst (handle_call_tool E name arguments w) = Inl (ValueError m)) \<longleftrightarrow>
      (name \<noteq> ''search-web'' \<or>
       (case arguments of
          None \<Rightarrow> True
        | Some d \<Rightarrow>
            d = [] \<or> \<not> truthy (dict_get d ''query'') \<or> \<not> truthy (dict_get d ''depth'')))) \<and>
   (name = ''search-web'' \<and> arguments = Some d \<and>
    truthy (dict_get d ''query'') \<and> truthy (dict_get d ''depth'') \<and>
    LinkupClient E (ext w) = (Inr client, e1) \<longrightarrow>
      handle_call_tool E name arguments w =
        (case search E client (dict_get d ''query'') (dict_get d ''depth'') ''searchResults''
                e1 of
           (Inl x, e2) \<Rightarrow>
             (Inl (Propagated x),
              w\<lparr>ext := e2,
                 calls := calls w @
                   [Call_LinkupClient,
                    Call_search (dict_get d ''query'') (dict_get d ''depth'')
                      ''searchResults'']\<rparr>)
         | (Inr R, e2) \<Rightarrow>
             (Inr [TextContent ''text'' (str E R)],
              w\<lparr>ext := e2,
                 calls := calls w @
                   [Call_LinkupClient,
                    Call_search (dict_get d ''query'') (dict_get d ''depth'')
                      ''searchResults'']\<rparr>)))"
proof (intro conjI impI)
  show "(\<exists>m. fst (handle_call_tool E name arguments w) = Inl (ValueError m)) \<longleftrightarrow>
      (name \<noteq> ''search-web'' \<or>
       (case arguments of
          None \<Rightarrow> True
        | Some d \<Rightarrow>
            d = [] \<or> \<not> truthy (dict_get d ''query'') \<or> \<not> truthy (dict_get d ''depth'')))"
    by (simp add: handle_call_tool_result_cases split: option.split sum.split)
next
  assume "name = ''search-web'' \<and> arguments = Some d \<and>
    truthy (dict_get d ''query'') \<and> truthy (dict_get d ''depth'') \<and>
    LinkupClient E (ext w) = (Inr client, e1)"
  then show "handle_call_tool E name arguments w =
        (case search E client (dict_get d ''query'') (dict_get d ''depth'') ''searchResults''
                e1 of
           (Inl x, e2) \<Rightarrow>
             (Inl (Propagated x),
              w\<lparr>ext := e2,
                 calls := calls w @
                   [Call_LinkupClient,
                    Call_search (dict_get d ''query'') (dict_get d ''depth'')
                      ''searchResults'']\<rparr>)
         | (Inr R, e2) \<Rightarrow>
             (Inr [TextContent ''text'' (str E R)],
              w\<lparr>ext := e2,
                 calls := calls w @
                   [Call_LinkupClient,
                    Call_search (dict_get d ''query'') (dict_get d ''depth'')
                      ''searchResults'']\<rparr>))"
    by (simp add: handle_call_tool_valid)
qed

theorem validation_is_truthiness_witness:
  "\<not> (\<exists>m. fst (handle_call_tool
                  (stub_env None
                     (\<lambda>e q d. Inr (if q = PInt 7 \<and> d = PList [PStr ''deep'']
                                   then ''got 7 and [deep]'' else ''other''))
                     None)
                  ''search-web''
                  (Some [(''query'', PInt 7), (''depth'', PList [PStr ''deep''])])
                  (initial_world 0)) = Inl (ValueError m)) \<and>
   handle_call_tool
      (stub_env None
         (\<lambda>e q d. Inr (if q = PInt 7 \<and> d = PList [PStr ''deep'']
                       then ''got 7 and [deep]'' else ''other''))
         None)
      ''search-web'' (Some [(''query'', PInt 7), (''depth'', PList [PStr ''deep''])])
      (initial_world 0) =
     (Inr [TextContent ''text'' ''got 7 and [deep]''],
      \<lparr>logger_level = 20, ext = 1,
       calls = [Call_LinkupClient,
                Call_search (PInt 7) (PList [PStr ''deep'']) ''searchResults'']\<rparr>) \<and>
   (\<exists>m. fst (handle_call_tool echo_env ''search-web''
               (Some [(''query'', PInt 0), (''depth'', PStr ''deep'')])
               (initial_world 0)) = Inl (ValueError m))"
  using
    validation_is_truthiness
      [of "stub_env None
             (\<lambda>e q d. Inr (if q = PInt 7 \<and> d = PList [PStr ''deep'']
                           then ''got 7 and [deep]'' else ''other''))
             None"
          "''search-web''"
          "Some [(''query'', PInt 7), (''depth'', PList [PStr ''deep''])]" "initial_world 0"
          "[(''query'', PInt 7), (''depth'', PList [PStr ''deep''])]" "()" 0]
    validation_is_truthiness
      [of echo_env "''search-web''"
          "Some [(''query'', PInt 0), (''depth'', PStr ''deep'')]" "initial_world 0"
          "[(''query'', PInt 0), (''depth'', PStr ''deep'')]" "()" 0]
  by (simp add: dict_get_def echo_env_def stub_env_def initial_world_def)

section \<open>The logging level handler\<close>

lemma set_logging_level_unknown:
  "checkLevel (upper level) = Inl e \<Longrightarrow> set_logging_level E level w = (Inl e, w)"
  by (simp add: set_logging_level_def setLevel_def)

lemma set_logging_level_known:
  "checkLevel (upper level) = Inr n \<Longrightarrow>
     set_logging_level E level w =
       (case send_log_message E ''info'' (''Log level set to '' @ level) ''mcp-search-linkup''
               (ext w) of
          (Inl x, e2) \<Rightarrow>
            (Inl (Propagated x),
             w\<lparr>logger_level := n, ext := e2,
                calls := calls w @
                  [Call_send_log_message ''info'' (''Log level set to '' @ level)
                     ''mcp-search-linkup'']\<rparr>)
        | (Inr u, e2) \<Rightarrow>
            (Inr EmptyResult,
             w\<lparr>logger_level := n, ext := e2,
                calls := calls w @
                  [Call_send_log_message ''info'' (''Log level set to '' @ level)
                     ''mcp-search-linkup'']\<rparr>))"
  by (simp add: set_logging_level_def setLevel_def split: prod.split sum.split)

lemma set_logging_level_known_level:
  "checkLevel (upper level) = Inr n \<Longrightarrow> logger_level (snd (set_logging_level E level w)) = n"
  by (simp add: set_logging_level_def setLevel_def split: prod.split sum.split)

lemma set_logging_level_known_calls:
  "checkLevel (upper level) = Inr n \<Longrightarrow>
     calls (snd (set_logging_level E level w)) =
       calls w @
         [Call_send_log_message ''info'' (''Log level set to '' @ level) ''mcp-search-linkup'']"
  by (simp add: set_logging_level_def setLevel_def split: prod.split sum.split)

lemma upper_levels:
  "upper ''debug'' = ''DEBUG''" "upper ''info'' = ''INFO''" "upper ''notice'' = ''NOTICE''"
  "upper ''warning'' = ''WARNING''" "upper ''error'' = ''ERROR''"
  "upper ''critical'' = ''CRITICAL''" "upper ''alert'' = ''ALERT''"
  "upper ''emergency'' = ''EMERGENCY''" "upper ''Error'' = ''ERROR''"
  by code_simp+

lemma checkLevel_levels:
  "checkLevel ''DEBUG'' = Inr 10" "checkLevel ''INFO'' = Inr 20"
  "checkLevel ''WARNING'' = Inr 30" "checkLevel ''ERROR'' = Inr 40"
  "checkLevel ''CRITICAL'' = Inr 50"
  "checkLevel ''NOTICE'' = Inl (ValueError (''Unknown level: 'NOTICE'' @ [CHR 0x27]))"
  "checkLevel ''ALERT'' = Inl (ValueError (''Unknown level: 'ALERT'' @ [CHR 0x27]))"
  "checkLevel ''EMERGENCY'' = Inl (ValueError (''Unknown level: 'EMERGENCY'' @ [CHR 0x27]))"
  by (simp_all add: checkLevel_def nameToLevel_def repr_def)

lemma set_logging_level_accepted:
  assumes "send_log_message E ''info'' (''Log level set to '' @ level) ''mcp-search-linkup''
             (ext w) = (Inr u, e2)"
    and "(level, n) \<in> {(''debug'', 10), (''info'', 20), (''warning'', 30), (''error'', 40),
                        (''critical'', 50)}"
  shows "set_logging_level E level w =
           (Inr EmptyResult,
            w\<lparr>logger_level := n, ext := e2,
               calls := calls w @
                 [Call_send_log_message ''info'' (''Log level set to '' @ level)
                    ''mcp-search-linkup'']\<rparr>)"
proof -
  from assms(2) have c: "checkLevel (upper level) = Inr n"
    by (auto simp add: upper_levels checkLevel_levels)
  show ?thesis
    unfolding set_logging_level_known [OF c] assms(1) by simp
qed

text \<open>
  C7: \<open>set_logging_level\<close> at the protocol's levels \<^verbatim>\<open>notice\<close>, \<^verbatim>\<open>alert\<close> and
  \<^verbatim>\<open>emergency\<close>: the logger does not know the upper-cased name, \<^verbatim>\<open>setLevel\<close> raises, and the
  handler ends there, with the threshold unchanged, no message sent and no result.
\<close>

theorem set_logging_level_rejects_notice:
  "set_logging_level E ''notice'' w =
     (Inl (ValueError (''Unknown level: 'NOTICE'' @ [CHR 0x27])), w) \<and>
   set_logging_level E ''alert'' w =
     (Inl (ValueError (''Unknown level: 'ALERT'' @ [CHR 0x27])), w) \<and>
   set_logging_level E ''emergency'' w =
     (Inl (ValueError (''Unknown level: 'EMERGENCY'' @ [CHR 0x27])), w)"
  by (simp add: set_logging_level_unknown upper_levels checkLevel_levels)

text \<open>
  What the handler does with a level name according to the logger's verdict.  A spelling is
  upper-cased before the logger sees it, so two spellings that agree up to case set the same
  threshold.  When the logger accepts the name, the threshold is the new one even if sending
  fails, and one message goes to the session with level \<^verbatim>\<open>info\<close> whatever the new threshold
  \<open>n\<close> is; when the logger refuses the name, nothing is sent.
\<close>

lemma set_logging_level_upper_then_send:
  "(checkLevel (upper level) = Inr n \<longrightarrow>
      logger_level (snd (set_logging_level E level w)) = n \<and>
      calls (snd (set_logging_level E level w)) =
        calls w @
          [Call_send_log_message ''info'' (''Log level set to '' @ level) ''mcp-search-linkup''] \<and>
      (fst (send_log_message E ''info'' (''Log level set to '' @ level) ''mcp-search-linkup''
              (ext w)) = Inl x \<longrightarrow>
         fst (set_logging_level E level w) = Inl (Propagated x)) \<and>
      (fst (send_log_message E ''info'' (''Log level set to '' @ level) ''mcp-search-linkup''
              (ext w)) = Inr u \<longrightarrow>
         fst (set_logging_level E level w) = Inr EmptyResult)) \<and>
   (checkLevel (upper level) = Inl e \<longrightarrow> set_logging_level E level w = (Inl e, w)) \<and>
   (upper level' = upper level \<longrightarrow>
      logger_level (snd (set_logging_level E level' w)) =
      logger_level (snd (set_logging_level E level w)))"
proof (intro conjI impI)
  assume k: "checkLevel (upper level) = Inr n"
  show "logger_level (snd (set_logging_level E level w)) = n"
    by (rule set_logging_level_known_level [OF k])
  show "calls (snd (set_logging_level E level w)) =
        calls w @
          [Call_send_log_message ''info'' (''Log level set to '' @ level) ''mcp-search-linkup'']"
    by (rule set_logging_level_known_calls [OF k])
  {
    assume "fst (send_log_message E ''info'' (''Log level set to '' @ level)
              ''mcp-search-linkup'' (ext w)) = Inl x"
    then show "fst (set_logging_level E level w) = Inl (Propagated x)"
      by (cases "send_log_message E ''info'' (''Log level set to '' @ level)
              ''mcp-search-linkup'' (ext w)") (simp add: set_logging_level_known [OF k])
  }
  {
    assume "fst (send_log_message E ''info'' (''Log level set to '' @ level)
              ''mcp-search-linkup'' (ext w)) = Inr u"
    then show "fst (set_logging_level E level w) = Inr EmptyResult"
      by (cases "send_log_message E ''info'' (''Log level set to '' @ level)
              ''mcp-search-linkup'' (ext w)") (simp add: set_logging_level_known [OF k])
  }
next
  assume "checkLevel (upper level) = Inl e"
  then show "set_logging_level E level w = (Inl e, w)"
    by (rule set_logging_level_unknown)
next
  assume u: "upper level' = upper level"
  show "logger_level (snd (set_logging_level E level' w)) =
      logger_level (snd (set_logging_level E level w))"
  proof (cases "checkLevel (upper level)")
    case (Inl e)
    with u show ?thesis by (simp add: set_logging_level_unknown)
  next
    case (Inr n)
    with u have "checkLevel (upper level') = Inr n" by simp
    from set_logging_level_known_level [OF this, of E w]
      set_logging_level_known_level [OF Inr, of E w]
    show ?thesis by simp
  qed
qed

lemma set_logging_level_upper_then_send_example:
  "logger_level (snd (set_logging_level (stub_env None (\<lambda>e q d. Inr ''R'') None) ''error''
                        (initial_world 0))) = 40 \<and>
   calls (snd (set_logging_level (stub_env None (\<lambda>e q d. Inr ''R'') None) ''error''
                 (initial_world 0))) =
     [Call_send_log_message ''info'' ''Log level set to error'' ''mcp-search-linkup''] \<and>
   fst (set_logging_level (stub_env None (\<lambda>e q d. Inr ''R'') None) ''error''
          (initial_world 0)) = Inr EmptyResult \<and>
   logger_level (snd (set_logging_level (stub_env None (\<lambda>e q d. Inr ''R'') None) ''Error''
                        (initial_world 0))) =
     logger_level (snd (set_logging_level (stub_env None (\<lambda>e q d. Inr ''R'') None) ''error''
                        (initial_world 0))) \<and>
   logger_level
     (snd (set_logging_level
             (stub_env None (\<lambda>e q d. Inr ''R'') (Some (ExtError ''ClosedResourceError'' [])))
             ''error'' (initial_world 0))) = 40 \<and>
   fst (set_logging_level
          (stub_env None (\<lambda>e q d. Inr ''R'') (Some (ExtError ''ClosedResourceError'' [])))
          ''error'' (initial_world 0)) =
     Inl (Propagated (ExtError ''ClosedResourceError'' [])) \<and>
   set_logging_level (stub_env None (\<lambda>e q d. Inr ''R'') None) ''alert'' (initial_world 0) =
     (Inl (ValueError (''Unknown level: 'ALERT'' @ [CHR 0x27])), initial_world 0)"
  using
    set_logging_level_upper_then_send
      [of "''error''" 40 "stub_env None (\<lambda>e q d. Inr ''R'') None" "initial_world 0"
          "ExtError ''ClosedResourceError'' []" "()"
          "ValueError (''Unknown level: 'ALERT'' @ [CHR 0x27])" "''Error''"]
    set_logging_level_upper_then_send
      [of "''error''" 40
          "stub_env None (\<lambda>e q d. Inr ''R'') (Some (ExtError ''ClosedResourceError'' []))"
          "initial_world 0" "ExtError ''ClosedResourceError'' []" "()"
          "ValueError (''Unknown level: 'ALERT'' @ [CHR 0x27])" "''Error''"]
    set_logging_level_upper_then_send
      [of "''alert''" 40 "stub_env None (\<lambda>e q d. Inr ''R'') None" "initial_world 0"
          "ExtError ''ClosedResourceError'' []" "()"
          "ValueError (''Unknown level: 'ALERT'' @ [CHR 0x27])" "''alert''"]
  by (simp add: upper_levels checkLevel_levels stub_env_def initial_world_def)

text \<open>
  C10: \<open>set_logging_level\<close> at \<^verbatim>\<open>emergency\<close> and \<^verbatim>\<open>alert\<close>, the two protocol levels above
  \<^verbatim>\<open>critical\<close>.  The name is upper-cased and given to the logger first, the logger refuses
  it, and the handler ends with that \<open>ValueError\<close>: the threshold is not updated and no
  confirmation is sent to the session, although the requested level is above the
  informational one.
\<close>

theorem set_logging_level_above_info_unconfirmed:
  "fst (set_logging_level E ''emergency'' w) =
     Inl (ValueError (''Unknown level: 'EMERGENCY'' @ [CHR 0x27])) \<and>
   logger_level (snd (set_logging_level E ''emergency'' w)) = logger_level w \<and>
   calls (snd (set_logging_level E ''emergency'' w)) = calls w \<and>
   ext (snd (set_logging_level E ''emergency'' w)) = ext w \<and>
   fst (set_logging_level E ''alert'' w) =
     Inl (ValueError (''Unknown level: 'ALERT'' @ [CHR 0x27])) \<and>
   logger_level (snd (set_logging_level E ''alert'' w)) = logger_level w \<and>
   calls (snd (set_logging_level E ''alert'' w)) = calls w \<and>
   ext (snd (set_logging_level E ''alert'' w)) = ext w"
  by (simp add: set_logging_level_unknown upper_levels checkLevel_levels)

end
